theory Spec2Isabelle
  imports Complex_Main
begin

section \<open>The trading engine of QuantEdge (src/trading\_engine.py)\<close>

text \<open>
  The class \<^verbatim>\<open>TradingEngine\<close> is embedded as a record of its attributes, and each
  method as a function that takes the engine and returns its result together with the
  engine as the method leaves it. Python's floats are idealised as \<^typ>\<open>real\<close>
  (no rounding, no NaN, no infinities except the one \<^verbatim>\<open>float('inf')\<close> that
  \<^verbatim>\<open>analyze_performance\<close> writes itself). A division by zero is Python's
  \<^verbatim>\<open>ZeroDivisionError\<close>, an index past the end of the frame is
  \<^verbatim>\<open>IndexError\<close>; both are values of the type \<open>error\<close>.
\<close>

subsection \<open>Data model\<close>

datatype error = ZeroDivisionError | IndexError

text \<open>
  The objects that the code passes around as timestamps: a \<^verbatim>\<open>datetime.date\<close>
  (a day number), a timestamp (\<^verbatim>\<open>pandas.Timestamp\<close> or
  \<^verbatim>\<open>datetime.datetime\<close>: a day number and the seconds since midnight), or
  some other object such as a string.
\<close>

datatype timestamp = Timestamp (date: int) (time_of_day: nat)

datatype pyobj = PDate int | PTimestamp timestamp | PStr string

text \<open>\<^verbatim>\<open>hasattr(timestamp, 'date')\<close>: only timestamps have a \<^verbatim>\<open>date\<close> method.\<close>

fun hasattr_date :: "pyobj \<Rightarrow> bool" where
  "hasattr_date (PTimestamp t) = True"
| "hasattr_date (PDate d) = False"
| "hasattr_date (PStr s) = False"

text \<open>
  \<^verbatim>\<open>x != d\<close> for a \<^verbatim>\<open>datetime.date\<close> \<open>d\<close>: two dates are compared by their
  day; a timestamp and a date are never equal (the standard library and pandas 2), and
  neither are a string and a date.
\<close>

fun ne_date :: "pyobj \<Rightarrow> int \<Rightarrow> bool" where
  "ne_date (PDate d') d = (d' \<noteq> d)"
| "ne_date (PTimestamp t) d = True"
| "ne_date (PStr s) d = True"

text \<open>The signal dictionary; \<^verbatim>\<open>confidence\<close> and \<^verbatim>\<open>pattern\<close> are read with \<^verbatim>\<open>.get\<close>.\<close>

record signal =
  sig_type :: string
  sig_price :: real
  sig_atr :: real
  sig_pattern :: "string option"
  sig_confidence :: "real option"

text \<open>The position dictionary; \<^verbatim>\<open>trailing_stop\<close> is a key that may be absent.\<close>

record position =
  pos_type :: string
  pos_entry_price :: real
  pos_size :: real
  pos_stop_loss :: real
  pos_take_profit :: real
  pos_liquidation_price :: real
  pos_entry_time :: pyobj
  pos_entry_capital :: real
  pos_confidence :: real
  pos_pattern :: "string option"
  pos_trailing_stop :: "real option"

record trade =
  tr_entry_time :: pyobj
  tr_exit_time :: pyobj
  tr_type :: string
  tr_entry_price :: real
  tr_exit_price :: real
  tr_size :: real
  tr_pnl :: real
  tr_pnl_percent :: real
  tr_reason :: string
  tr_pattern :: string

text \<open>
  The attributes of the engine that its methods read or write (the indicator windows,
  the symbol and the timeframe are used by \<^verbatim>\<open>calculate_indicators\<close> and the
  drivers only).
\<close>

record engine =
  initial_capital :: real
  capital :: real
  leverage :: real
  risk_per_trade :: real
  stop_atr_multiplier :: real
  target_atr_multiplier :: real
  trailing_activation :: real
  max_trades_per_day :: int
  daily_loss_limit :: real
  position :: "position option"
  trades :: "trade list"
  daily_pnl :: real
  daily_trade_count :: int
  last_trade_date :: "pyobj option"

text \<open>\<^verbatim>\<open>__init__\<close>: the state of a new engine.\<close>

definition init_engine :: "real \<Rightarrow> real \<Rightarrow> real \<Rightarrow> engine" where
  "init_engine initial_capital' leverage' risk_per_trade' =
     \<lparr> initial_capital = initial_capital',
       capital = initial_capital',
       leverage = leverage',
       risk_per_trade = risk_per_trade',
       stop_atr_multiplier = 2.0,
       target_atr_multiplier = 3.5,
       trailing_activation = 1.5,
       max_trades_per_day = 8,
       daily_loss_limit = 0.08,
       position = None,
       trades = [],
       daily_pnl = 0,
       daily_trade_count = 0,
       last_trade_date = None \<rparr>"

subsection \<open>Risk sizing\<close>

definition calculate_position_size :: "engine \<Rightarrow> real \<Rightarrow> real \<Rightarrow> real \<Rightarrow> real" where
  "calculate_position_size e entry_price stop_loss_price confidence =
     (let risk_amount = capital e * risk_per_trade e * confidence;
          stop_distance = \<bar>entry_price - stop_loss_price\<bar>
      in if stop_distance = 0 then 0
         else
           let position_size = (risk_amount / stop_distance) * leverage e;
               max_position = capital e * leverage e * 0.5
           in min position_size max_position)"

definition calculate_stops :: "engine \<Rightarrow> real \<Rightarrow> string \<Rightarrow> real \<Rightarrow> real \<times> real" where
  "calculate_stops e entry_price signal_type atr' =
     (if signal_type = ''long''
      then (entry_price - (atr' * stop_atr_multiplier e),
            entry_price + (atr' * target_atr_multiplier e))
      else (entry_price + (atr' * stop_atr_multiplier e),
            entry_price - (atr' * target_atr_multiplier e)))"

definition calculate_liquidation_price :: "engine \<Rightarrow> real \<Rightarrow> string \<Rightarrow> error + real" where
  "calculate_liquidation_price e entry_price position_type =
     (if leverage e = 0 then Inl ZeroDivisionError
      else if position_type = ''long''
      then Inr (entry_price * (1 - 0.9 / leverage e))
      else Inr (entry_price * (1 + 0.9 / leverage e)))"

subsection \<open>Opening and closing the position\<close>

text \<open>\<^verbatim>\<open>signal.get('confidence', 1.0)\<close> and \<^verbatim>\<open>signal.get('pattern', 'unknown')\<close>.\<close>

definition get_confidence :: "signal \<Rightarrow> real" where
  "get_confidence sg = (case sig_confidence sg of Some c \<Rightarrow> c | None \<Rightarrow> 1.0)"

definition get_pattern :: "signal \<Rightarrow> string" where
  "get_pattern sg = (case sig_pattern sg of Some p \<Rightarrow> p | None \<Rightarrow> ''unknown'')"

text \<open>
  \<^verbatim>\<open>open_position\<close> returns its boolean and the engine. It never looks at
  \<^verbatim>\<open>self.position\<close> before it assigns it.
\<close>

definition open_position :: "engine \<Rightarrow> signal \<Rightarrow> pyobj \<Rightarrow> (error + bool) \<times> engine" where
  "open_position e sg timestamp =
     (let entry_price = sig_price sg;
          position_type = sig_type sg;
          atr' = sig_atr sg;
          confidence = get_confidence sg;
          pattern = get_pattern sg;
          (stop_loss, take_profit) = calculate_stops e entry_price position_type atr';
          position_size = calculate_position_size e entry_price stop_loss confidence
      in if position_size \<le> 0 then (Inr False, e)
         else case calculate_liquidation_price e entry_price position_type of
           Inl err \<Rightarrow> (Inl err, e)
         | Inr liquidation_price \<Rightarrow>
             (Inr True,
              e\<lparr> position := Some
                   \<lparr> pos_type = position_type,
                     pos_entry_price = entry_price,
                     pos_size = position_size,
                     pos_stop_loss = stop_loss,
                     pos_take_profit = take_profit,
                     pos_liquidation_price = liquidation_price,
                     pos_entry_time = timestamp,
                     pos_entry_capital = capital e,
                     pos_confidence = confidence,
                     pos_pattern = Some pattern,
                     pos_trailing_stop = None \<rparr>,
                 daily_trade_count := daily_trade_count e + 1,
                 last_trade_date := (if hasattr_date timestamp then Some timestamp else None) \<rparr>))"

text \<open>
  \<^verbatim>\<open>close_position\<close>: the capital is updated before the percentage is computed, so
  a zero capital-at-entry raises with the capital already changed (by the P\&L, which is
  then the price-based one or \<open>- 0 * 0.9\<close>).
\<close>

definition close_position ::
  "engine \<Rightarrow> real \<Rightarrow> pyobj \<Rightarrow> string \<Rightarrow> (error + trade option) \<times> engine" where
  "close_position e exit_price timestamp reason =
     (case position e of
        None \<Rightarrow> (Inr None, e)
      | Some p \<Rightarrow>
          let position_type = pos_type p;
              entry_price = pos_entry_price p;
              size' = pos_size p;
              pnl0 = (if position_type = ''long''
                      then (exit_price - entry_price) * size'
                      else (entry_price - exit_price) * size');
              pnl = (if reason = ''LIQUIDATION'' then - pos_entry_capital p * 0.9 else pnl0);
              e1 = e\<lparr> capital := capital e + pnl \<rparr>
          in if pos_entry_capital p = 0 then (Inl ZeroDivisionError, e1)
             else
               let pnl_percent = (pnl / pos_entry_capital p) * 100;
                   e2 = e1\<lparr> daily_pnl := daily_pnl e1 + pnl \<rparr>;
                   trade_record =
                     \<lparr> tr_entry_time = pos_entry_time p,
                       tr_exit_time = timestamp,
                       tr_type = position_type,
                       tr_entry_price = entry_price,
                       tr_exit_price = exit_price,
                       tr_size = size',
                       tr_pnl = pnl,
                       tr_pnl_percent = pnl_percent,
                       tr_reason = reason,
                       tr_pattern = (case pos_pattern p of Some pt \<Rightarrow> pt | None \<Rightarrow> ''unknown'') \<rparr>
               in (Inr (Some trade_record),
                   e2\<lparr> trades := trades e2 @ [trade_record], position := None \<rparr>))"

subsection \<open>Exit logic\<close>

text \<open>
  \<^verbatim>\<open>should_exit_position\<close>, block by block. The current P\&L in percent (lines 337 to
  340) divides by the entry price.
\<close>

definition pnl_pct :: "position \<Rightarrow> real \<Rightarrow> real" where
  "pnl_pct p current_price =
     (if pos_type p = ''long''
      then ((current_price - pos_entry_price p) / pos_entry_price p) * 100
      else ((pos_entry_price p - current_price) / pos_entry_price p) * 100)"

text \<open>The liquidation check (lines 343 to 346).\<close>

definition liquidated :: "position \<Rightarrow> real \<Rightarrow> bool" where
  "liquidated p current_price =
     ((pos_type p = ''long'' \<and> current_price \<le> pos_liquidation_price p)
      \<or> (pos_type p = ''short'' \<and> current_price \<ge> pos_liquidation_price p))"

text \<open>
  The condition of line 349: \<^verbatim>\<open>current_atr\<close> is tested for truth (\<^verbatim>\<open>None\<close> and 0
  are false) before the P\&L is compared with the activation threshold.
\<close>

definition trailing_active :: "engine \<Rightarrow> position \<Rightarrow> real \<Rightarrow> real option \<Rightarrow> bool" where
  "trailing_active e p current_price current_atr =
     (case current_atr of
        None \<Rightarrow> False
      | Some a \<Rightarrow> a \<noteq> 0 \<and> pnl_pct p current_price > trailing_activation e)"

text \<open>
  The trailing-stop block (lines 350 to 361) for an ATR \<open>a\<close>: the position with the
  trailing stop it stores (the candidate when the key was absent or the candidate is
  tighter, the old value otherwise), and whether the price has crossed the stored value.
\<close>

definition trailing_update :: "engine \<Rightarrow> position \<Rightarrow> real \<Rightarrow> real \<Rightarrow> position \<times> bool" where
  "trailing_update e p current_price a =
     (if pos_type p = ''long''
      then
        let trailing = current_price - (a * stop_atr_multiplier e * 0.75);
            stored = (case pos_trailing_stop p of
                        None \<Rightarrow> trailing
                      | Some t \<Rightarrow> if trailing > t then trailing else t)
        in (p\<lparr> pos_trailing_stop := Some stored \<rparr>, current_price \<le> stored)
      else
        let trailing = current_price + (a * stop_atr_multiplier e * 0.75);
            stored = (case pos_trailing_stop p of
                        None \<Rightarrow> trailing
                      | Some t \<Rightarrow> if trailing < t then trailing else t)
        in (p\<lparr> pos_trailing_stop := Some stored \<rparr>, current_price \<ge> stored))"

text \<open>The regular stops (lines 364 to 375).\<close>

definition regular_stops :: "position \<Rightarrow> real \<Rightarrow> bool \<times> string option" where
  "regular_stops p current_price =
     (if pos_type p = ''long''
      then (if current_price \<le> pos_stop_loss p then (True, Some ''STOP_LOSS'')
            else if current_price \<ge> pos_take_profit p then (True, Some ''TAKE_PROFIT'')
            else (False, None))
      else (if current_price \<ge> pos_stop_loss p then (True, Some ''STOP_LOSS'')
            else if current_price \<le> pos_take_profit p then (True, Some ''TAKE_PROFIT'')
            else (False, None)))"

text \<open>
  \<^verbatim>\<open>should_exit_position\<close> returns the pair (exit, reason) and the engine, whose
  position may have a new \<^verbatim>\<open>trailing_stop\<close>.
\<close>

definition should_exit_position ::
  "engine \<Rightarrow> real \<Rightarrow> real option \<Rightarrow> (error + (bool \<times> string option)) \<times> engine" where
  "should_exit_position e current_price current_atr =
     (case position e of
        None \<Rightarrow> (Inr (False, None), e)
      | Some p \<Rightarrow>
          if pos_entry_price p = 0 then (Inl ZeroDivisionError, e)
          else if liquidated p current_price then (Inr (True, Some ''LIQUIDATION''), e)
          else if trailing_active e p current_price current_atr
          then
            (case current_atr of
               None \<Rightarrow> (Inr (regular_stops p current_price), e)
             | Some a \<Rightarrow>
                 let (p1, trailing_hit) = trailing_update e p current_price a;
                     e1 = e\<lparr> position := Some p1 \<rparr>
                 in if trailing_hit then (Inr (True, Some ''TRAILING_STOP''), e1)
                    else (Inr (regular_stops p current_price), e1))
          else (Inr (regular_stops p current_price), e))"

text \<open>
  A driver calls \<^verbatim>\<open>should_exit_position\<close> once per candle while the position is
  open; \<open>evaluate_exits\<close> is that sequence of calls on the prices and ATR values
  of successive candles, keeping the engine each call leaves.
\<close>

fun evaluate_exits :: "engine \<Rightarrow> (real \<times> real option) list \<Rightarrow> engine" where
  "evaluate_exits e [] = e"
| "evaluate_exits e ((current_price, current_atr) # rest) =
     evaluate_exits (snd (should_exit_position e current_price current_atr)) rest"

subsection \<open>Signal detection\<close>

text \<open>
  A row of the indicator-augmented frame: its index (a timestamp) and the columns that
  \<^verbatim>\<open>check_signal\<close> reads. The frame is the list of its rows;
  \<^verbatim>\<open>calculate_indicators\<close> has dropped every row with an undefined value.
\<close>

record row =
  name :: timestamp
  open_col :: real
  high :: real
  low :: real
  close :: real
  ema_short :: real
  ema_mid :: real
  ema_long :: real
  rsi :: real
  macd :: real
  macd_signal :: real
  macd_hist :: real
  bb_pband :: real
  atr :: real
  volume_ratio :: real
  body :: real
  upper_wick :: real
  lower_wick :: real
  range_col :: real
  price_change :: real
  ema_alignment_bull :: bool
  ema_alignment_bear :: bool

text \<open>\<^verbatim>\<open>s.iloc[a:b]\<close> for \<open>0 \<le> a \<le> b\<close>.\<close>

definition iloc_slice :: "'a list \<Rightarrow> nat \<Rightarrow> nat \<Rightarrow> 'a list" where
  "iloc_slice xs a b = take (b - a) (drop a xs)"

definition mk_signal :: "string \<Rightarrow> row \<Rightarrow> string \<Rightarrow> real \<Rightarrow> signal" where
  "mk_signal ty current pat conf =
     \<lparr> sig_type = ty, sig_price = close current, sig_atr = atr current,
       sig_pattern = Some pat, sig_confidence = Some conf \<rparr>"

text \<open>
  The conditions of the four patterns of \<^verbatim>\<open>check_signal\<close> (lines 135 to 289), each
  under the names the source gives its parts, for an index \<open>i\<close> with
  \<open>5 \<le> i < length df\<close>: \<open>current\<close>, \<open>prev\<close> and \<open>prev2\<close> are the rows \<open>i\<close>,
  \<open>i - 1\<close> and \<open>i - 2\<close>.
\<close>

definition trend_pullback_long :: "row list \<Rightarrow> nat \<Rightarrow> bool" where
  "trend_pullback_long df i =
     (let current = df ! i; prev = df ! (i - 1); prev2 = df ! (i - 2);
          uptrend_context = (ema_alignment_bull current \<or> ema_short current > ema_long current);
          pullback_complete = (close prev2 < ema_short prev2 \<and> close prev < ema_short prev
                               \<and> close current > ema_short current);
          rsi_oversold_recovery = (rsi prev < 45 \<and> rsi current > 45);
          macd_turning = (macd_hist current > macd_hist prev);
          bullish_momentum = (price_change current > 0 \<and> body current > range_col current * 0.5)
      in uptrend_context \<and> (pullback_complete \<or> rsi_oversold_recovery)
         \<and> (macd_turning \<or> bullish_momentum))"

definition trend_pullback_short :: "row list \<Rightarrow> nat \<Rightarrow> bool" where
  "trend_pullback_short df i =
     (let current = df ! i; prev = df ! (i - 1); prev2 = df ! (i - 2);
          downtrend_context = (ema_alignment_bear current \<or> ema_short current < ema_long current);
          rally_complete = (close prev2 > ema_short prev2 \<and> close prev > ema_short prev
                            \<and> close current < ema_short current);
          rsi_overbought_rejection = (rsi prev > 55 \<and> rsi current < 55);
          macd_weakening = (macd_hist current < macd_hist prev);
          bearish_momentum = (price_change current < 0 \<and> body current > range_col current * 0.5)
      in downtrend_context \<and> (rally_complete \<or> rsi_overbought_rejection)
         \<and> (macd_weakening \<or> bearish_momentum))"

definition bb_bounce_long :: "row list \<Rightarrow> nat \<Rightarrow> bool" where
  "bb_bounce_long df i =
     (let current = df ! i;
          ranging = (\<not> ema_alignment_bull current \<and> \<not> ema_alignment_bear current);
          at_lower_bb = (bb_pband current < 0.15);
          rsi_oversold = (rsi current < 35);
          hammer_candle = (lower_wick current > body current * 1.5)
      in ranging \<and> at_lower_bb \<and> rsi_oversold \<and> (hammer_candle \<or> price_change current > 0))"

definition bb_rejection_short :: "row list \<Rightarrow> nat \<Rightarrow> bool" where
  "bb_rejection_short df i =
     (let current = df ! i;
          ranging = (\<not> ema_alignment_bull current \<and> \<not> ema_alignment_bear current);
          at_upper_bb = (bb_pband current > 0.85);
          rsi_overbought = (rsi current > 65);
          shooting_star = (upper_wick current > body current * 1.5)
      in ranging \<and> at_upper_bb \<and> rsi_overbought \<and> (shooting_star \<or> price_change current < 0))"

text \<open>
  \<^verbatim>\<open>df['high'].iloc[i-5:i].max() - df['low'].iloc[i-5:i].min() < current['atr'] * 3\<close>;
  the slices hold 5 rows.
\<close>

definition consolidating :: "row list \<Rightarrow> nat \<Rightarrow> bool" where
  "consolidating df i =
     (Max (set (map high (iloc_slice df (i - 5) i)))
        - Min (set (map low (iloc_slice df (i - 5) i))) < atr (df ! i) * 3)"

text \<open>\<^verbatim>\<open>current['close'] > df['high'].iloc[i-5:i-1].max()\<close>; the slice holds 4 rows.\<close>

definition breaking_higher :: "row list \<Rightarrow> nat \<Rightarrow> bool" where
  "breaking_higher df i = (close (df ! i) > Max (set (map high (iloc_slice df (i - 5) (i - 1)))))"

definition breaking_lower :: "row list \<Rightarrow> nat \<Rightarrow> bool" where
  "breaking_lower df i = (close (df ! i) < Min (set (map low (iloc_slice df (i - 5) (i - 1)))))"

definition breakout_long :: "row list \<Rightarrow> nat \<Rightarrow> bool" where
  "breakout_long df i =
     (let current = df ! i;
          volume_surge = (volume_ratio current > 1.5);
          macd_bullish = (macd current > macd_signal current)
      in consolidating df i \<and> breaking_higher df i \<and> volume_surge \<and> macd_bullish)"

definition breakdown_short :: "row list \<Rightarrow> nat \<Rightarrow> bool" where
  "breakdown_short df i =
     (let current = df ! i;
          volume_surge = (volume_ratio current > 1.5);
          macd_bearish = (macd current < macd_signal current)
      in consolidating df i \<and> breaking_lower df i \<and> volume_surge \<and> macd_bearish)"

definition momentum_long :: "row list \<Rightarrow> nat \<Rightarrow> bool" where
  "momentum_long df i =
     (let current = df ! i;
          strong_green_candle = (close current > open_col current
                                 \<and> body current > range_col current * 0.7
                                 \<and> price_change current > 0.5);
          rsi_bullish = (40 < rsi current \<and> rsi current < 70);
          ema_support = (close current > ema_mid current)
      in strong_green_candle \<and> rsi_bullish \<and> ema_support \<and> volume_ratio current > 1.2)"

definition momentum_short :: "row list \<Rightarrow> nat \<Rightarrow> bool" where
  "momentum_short df i =
     (let current = df ! i;
          strong_red_candle = (close current < open_col current
                               \<and> body current > range_col current * 0.7
                               \<and> price_change current < - 0.5);
          rsi_bearish = (30 < rsi current \<and> rsi current < 60);
          ema_resistance = (close current < ema_mid current)
      in strong_red_candle \<and> rsi_bearish \<and> ema_resistance \<and> volume_ratio current > 1.2)"

text \<open>The patterns in the order of the source; the first that matches returns.\<close>

definition check_patterns :: "row list \<Rightarrow> nat \<Rightarrow> signal option" where
  "check_patterns df i =
     (let current = df ! i
      in if trend_pullback_long df i then Some (mk_signal ''long'' current ''trend_pullback'' 0.7)
         else if trend_pullback_short df i then Some (mk_signal ''short'' current ''trend_pullback'' 0.7)
         else if bb_bounce_long df i then Some (mk_signal ''long'' current ''bb_bounce'' 0.6)
         else if bb_rejection_short df i then Some (mk_signal ''short'' current ''bb_rejection'' 0.6)
         else if breakout_long df i then Some (mk_signal ''long'' current ''breakout'' 0.8)
         else if breakdown_short df i then Some (mk_signal ''short'' current ''breakdown'' 0.8)
         else if momentum_long df i then Some (mk_signal ''long'' current ''momentum'' 0.5)
         else if momentum_short df i then Some (mk_signal ''short'' current ''momentum'' 0.5)
         else None)"

text \<open>The reset of the daily counters at the head of \<^verbatim>\<open>check_signal\<close> (lines 124 to 127).\<close>

definition reset_daily_limits :: "engine \<Rightarrow> row \<Rightarrow> engine" where
  "reset_daily_limits e current =
     (case last_trade_date e of
        None \<Rightarrow> e
      | Some d \<Rightarrow>
          if ne_date d (date (name current))
          then e\<lparr> daily_trade_count := 0, daily_pnl := 0 \<rparr>
          else e)"

text \<open>
  \<^verbatim>\<open>check_signal(df, i)\<close>; the index is \<open>None\<close> when the caller gives none.
  \<^verbatim>\<open>df.iloc[i]\<close> raises for an index past the end.
\<close>

definition check_signal ::
  "engine \<Rightarrow> row list \<Rightarrow> int option \<Rightarrow> (error + signal option) \<times> engine" where
  "check_signal e df i_arg =
     (let i = (case i_arg of None \<Rightarrow> - 1 | Some j \<Rightarrow> j)
      in if i < 5 then (Inr None, e)
         else if i \<ge> int (length df) then (Inl IndexError, e)
         else
           let current = df ! nat i;
               e1 = reset_daily_limits e current
           in if daily_trade_count e1 \<ge> max_trades_per_day e1 then (Inr None, e1)
              else if daily_pnl e1 < - daily_loss_limit e1 * capital e1 then (Inr None, e1)
              else (Inr (check_patterns df (nat i)), e1))"

subsection \<open>The entry block of the drivers\<close>

text \<open>
  The three drivers share one block that looks for an entry (backtester.py lines 90 to
  93, paper\_trader.py lines 163 to 166, paper\_trader\_api.py lines 381 to 384):
  \<^verbatim>\<open>if not self.position: signal = self.check_signal(df, i); if signal: if
  self.open_position(signal, current_time): ...\<close>, the live drivers giving no index.
  It returns whether a position was opened, and the engine; the printing and the
  saving of the state that follow a successful opening are left out.
\<close>

definition check_for_new_signals ::
  "engine \<Rightarrow> row list \<Rightarrow> int option \<Rightarrow> pyobj \<Rightarrow> (error + bool) \<times> engine" where
  "check_for_new_signals e df i_arg current_time =
     (case position e of
        Some p \<Rightarrow> (Inr False, e)
      | None \<Rightarrow>
          (case check_signal e df i_arg of
             (Inl err, e1) \<Rightarrow> (Inl err, e1)
           | (Inr None, e1) \<Rightarrow> (Inr False, e1)
           | (Inr (Some sg), e1) \<Rightarrow> open_position e1 sg current_time))"

subsection \<open>Performance statistics\<close>

datatype pyfloat = Finite real | Infinity

record performance =
  total_trades :: int
  winning_trades :: int
  losing_trades :: int
  win_rate :: real
  profit_factor :: pyfloat
  net_profit :: real
  avg_win :: real
  avg_loss :: real
  expectancy :: real
  sharpe_ratio :: real
  max_consecutive_losses :: nat
  roi :: real

text \<open>
  The column \<^verbatim>\<open>loss_streak\<close>: the running count of losses inside each run of equal
  \<^verbatim>\<open>is_loss\<close> values (the grouped cumulative sum), which is 0 on a run of wins.
\<close>

fun loss_streak :: "nat \<Rightarrow> bool list \<Rightarrow> nat list" where
  "loss_streak c [] = []"
| "loss_streak c (b # bs) = (let c' = (if b then c + 1 else 0) in c' # loss_streak c' bs)"

text \<open>\<^verbatim>\<open>Series.std()\<close>: the sample standard deviation, undefined (NaN) below two values.\<close>

definition series_std :: "real list \<Rightarrow> real option" where
  "series_std xs =
     (if length xs < 2 then None
      else let m = sum_list xs / real (length xs)
           in Some (sqrt (sum_list (map (\<lambda>x. (x - m)\<^sup>2) xs) / real (length xs - 1))))"

definition analyze_performance :: "engine \<Rightarrow> error + performance option" where
  "analyze_performance e =
     (if trades e = [] then Inr None
      else
        let trades_df = trades e;
            total_trades' = int (length trades_df);
            winners = filter (\<lambda>t. tr_pnl t > 0) trades_df;
            losers = filter (\<lambda>t. tr_pnl t \<le> 0) trades_df;
            winning_trades' = int (length winners);
            losing_trades' = total_trades' - winning_trades';
            win_rate' = (real_of_int winning_trades' / real_of_int total_trades') * 100;
            total_profit = sum_list (map tr_pnl winners);
            total_loss = \<bar>sum_list (map tr_pnl losers)\<bar>;
            net_profit' = sum_list (map tr_pnl trades_df);
            profit_factor' = (if total_loss > 0 then Finite (total_profit / total_loss) else Infinity);
            avg_win' = (if winning_trades' > 0
                        then sum_list (map tr_pnl winners) / real (length winners) else 0);
            avg_loss' = (if losing_trades' > 0
                         then \<bar>sum_list (map tr_pnl losers) / real (length losers)\<bar> else 0);
            expectancy' = (win_rate' / 100 * avg_win') - ((1 - win_rate' / 100) * avg_loss');
            returns = map (\<lambda>t. tr_pnl_percent t / 100) trades_df;
            sharpe = (case series_std returns of
                        None \<Rightarrow> 0
                      | Some sd \<Rightarrow>
                          if sd > 0
                          then (sum_list returns / real (length returns) / sd) * sqrt 252
                          else 0);
            max_consecutive_losses' =
              fold max (loss_streak 0 (map (\<lambda>t. tr_pnl t \<le> 0) trades_df)) 0
        in if initial_capital e = 0 then Inl ZeroDivisionError
           else Inr (Some
             \<lparr> total_trades = total_trades',
               winning_trades = winning_trades',
               losing_trades = losing_trades',
               win_rate = win_rate',
               profit_factor = profit_factor',
               net_profit = net_profit',
               avg_win = avg_win',
               avg_loss = avg_loss',
               expectancy = expectancy',
               sharpe_ratio = sharpe,
               max_consecutive_losses = max_consecutive_losses',
               roi = ((capital e - initial_capital e) / initial_capital e) * 100 \<rparr>))"

subsection \<open>Concrete scenarios\<close>

text \<open>
  The engine of the specification's scenarios (capital 10000, leverage 3, 2 percent risk
  per trade), a long signal at 100 with an ATR of 2, and the position that
  \<^verbatim>\<open>open_position\<close> builds from them at 10:15 on day 19723.
\<close>

definition scenario_engine :: engine where
  "scenario_engine = init_engine 10000 3 0.02"

definition scenario_signal :: signal where
  "scenario_signal =
     \<lparr> sig_type = ''long'', sig_price = 100, sig_atr = 2,
       sig_pattern = Some ''breakout'', sig_confidence = None \<rparr>"

definition scenario_time :: pyobj where
  "scenario_time = PTimestamp (Timestamp 19723 36900)"

definition scenario_position :: position where
  "scenario_position =
     \<lparr> pos_type = ''long'', pos_entry_price = 100, pos_size = 150, pos_stop_loss = 96,
       pos_take_profit = 107, pos_liquidation_price = 70,
       pos_entry_time = scenario_time, pos_entry_capital = 10000,
       pos_confidence = 1, pos_pattern = Some ''breakout'', pos_trailing_stop = None \<rparr>"

definition scenario_open :: engine where
  "scenario_open =
     scenario_engine\<lparr> position := Some scenario_position, daily_trade_count := 1,
       last_trade_date := Some scenario_time \<rparr>"

text \<open>The same engine once the trailing stop of its position is armed at 100.5.\<close>

definition scenario_armed :: engine where
  "scenario_armed =
     scenario_open\<lparr> position := Some (scenario_position\<lparr> pos_trailing_stop := Some 100.5 \<rparr>) \<rparr>"

text \<open>A short signal that arrives at 10:30 of the same day.\<close>

definition scenario_short :: signal where
  "scenario_short =
     \<lparr> sig_type = ''short'', sig_price = 105, sig_atr = 1,
       sig_pattern = Some ''breakdown'', sig_confidence = Some 0.8 \<rparr>"

definition scenario_later :: pyobj where
  "scenario_later = PTimestamp (Timestamp 19723 37800)"

text \<open>
  A quiet candle of day 19723 at \<open>t\<close> seconds after midnight, on which no pattern
  matches, and a frame of six of them at 15-minute steps from 09:15 to 10:30.
\<close>

definition scenario_row :: "nat \<Rightarrow> row" where
  "scenario_row t =
     \<lparr> name = Timestamp 19723 t, open_col = 100, high = 101, low = 99, close = 100,
       ema_short = 100, ema_mid = 100, ema_long = 100, rsi = 50,
       macd = 0, macd_signal = 0, macd_hist = 0, bb_pband = 0.5, atr = 2,
       volume_ratio = 1, body = 0, upper_wick = 1, lower_wick = 1, range_col = 2,
       price_change = 0, ema_alignment_bull = False, ema_alignment_bear = False \<rparr>"

definition scenario_frame :: "row list" where
  "scenario_frame = map scenario_row [33300, 34200, 35100, 36000, 36900, 37800]"

text \<open>
  The same frame with a spike of the high to 104 in row 4 and, in row 5, a close of 102
  on doubled volume with the convergence line above its signal line.
\<close>

definition breakout_frame :: "row list" where
  "breakout_frame =
     [scenario_row 33300, scenario_row 34200, scenario_row 35100, scenario_row 36000,
      (scenario_row 36900)\<lparr> high := 104 \<rparr>,
      (scenario_row 37800)\<lparr> high := 102.5, low := 99.5, close := 102, body := 2,
         upper_wick := 0.5, lower_wick := 0.5, range_col := 3, price_change := 2,
         volume_ratio := 2, macd := 1, macd_hist := 1 \<rparr>]"

text \<open>
  The long breakout condition in the words of the specification, read as they stand:
  the range of the 5 rows before the current one is below 3 times the current ATR, and
  the close exceeds the high of the 4 rows before the current one (rows \<open>i - 4\<close> to
  \<open>i - 1\<close>), with the volume ratio above 1.5 and the convergence line above its signal
  line.
\<close>

definition spec_breakout_long :: "row list \<Rightarrow> nat \<Rightarrow> bool" where
  "spec_breakout_long df i =
     (Max (set (map high (iloc_slice df (i - 5) i)))
        - Min (set (map low (iloc_slice df (i - 5) i))) < 3 * atr (df ! i)
      \<and> close (df ! i) > Max (set (map high (iloc_slice df (i - 4) i)))
      \<and> volume_ratio (df ! i) > 1.5
      \<and> macd (df ! i) > macd_signal (df ! i))"

text \<open>A winning and a losing trade of the same magnitude.\<close>

definition scenario_win :: trade where
  "scenario_win =
     \<lparr> tr_entry_time = scenario_time, tr_exit_time = scenario_later, tr_type = ''long'',
       tr_entry_price = 100, tr_exit_price = 104, tr_size = 150, tr_pnl = 600,
       tr_pnl_percent = 6, tr_reason = ''TRAILING_STOP'', tr_pattern = ''breakout'' \<rparr>"

definition scenario_loss :: trade where
  "scenario_loss =
     \<lparr> tr_entry_time = scenario_time, tr_exit_time = scenario_later, tr_type = ''long'',
       tr_entry_price = 100, tr_exit_price = 96, tr_size = 150, tr_pnl = - 600,
       tr_pnl_percent = - 6, tr_reason = ''STOP_LOSS'', tr_pattern = ''breakout'' \<rparr>"

section \<open>Properties\<close>

subsection \<open>The daily reset\<close>

lemma check_signal_engine:
  "5 \<le> i \<Longrightarrow> i < int (length df) \<Longrightarrow>
   snd (check_signal e df (Some i)) = reset_daily_limits e (df ! nat i)"
  by (simp add: check_signal_def Let_def)

lemma reset_daily_limits_timestamp:
  "last_trade_date e = Some (PTimestamp t) \<Longrightarrow>
   reset_daily_limits e current = e\<lparr> daily_trade_count := 0, daily_pnl := 0 \<rparr>"
  by (simp add: reset_daily_limits_def)

text \<open>
  C1: the daily counters should be reset once per date transition and never mid-day.
  The code does not do that: \<^verbatim>\<open>open_position\<close> stores the timestamp of the entry, not
  its date, and \<^verbatim>\<open>check_signal\<close> compares it with the date of the current row, which
  a timestamp never equals. In the scenario a position is opened at 10:15 and stopped
  out at 10:30 of day 19723; \<^verbatim>\<open>check_signal\<close> on the 10:30 row of the same day then
  resets the daily trade count from 1 to 0 and the daily P\&L from -600 to 0.
\<close>

theorem daily_counters_reset_mid_day:
  "open_position scenario_engine scenario_signal scenario_time = (Inr True, scenario_open)
   \<and> scenario_time = PTimestamp (Timestamp 19723 36900)
   \<and> name (scenario_frame ! 5) = Timestamp 19723 37800
   \<and> daily_trade_count (snd (close_position scenario_open 96 scenario_later ''STOP_LOSS'')) = 1
   \<and> daily_pnl (snd (close_position scenario_open 96 scenario_later ''STOP_LOSS'')) = - 600
   \<and> last_trade_date (snd (close_position scenario_open 96 scenario_later ''STOP_LOSS''))
       = Some scenario_time
   \<and> daily_trade_count (snd (check_signal
        (snd (close_position scenario_open 96 scenario_later ''STOP_LOSS''))
        scenario_frame (Some 5))) = 0
   \<and> daily_pnl (snd (check_signal
        (snd (close_position scenario_open 96 scenario_later ''STOP_LOSS''))
        scenario_frame (Some 5))) = 0"
proof -
  have o: "open_position scenario_engine scenario_signal scenario_time = (Inr True, scenario_open)"
    by (simp add: open_position_def calculate_stops_def calculate_position_size_def
      calculate_liquidation_price_def get_confidence_def get_pattern_def
      scenario_engine_def init_engine_def scenario_signal_def
      scenario_position_def scenario_open_def scenario_time_def)
  have c: "snd (close_position scenario_open 96 scenario_later ''STOP_LOSS'')
      = scenario_open\<lparr> capital := 9400, daily_pnl := - 600,
          trades := trades scenario_open @
            [\<lparr> tr_entry_time = scenario_time, tr_exit_time = scenario_later,
               tr_type = ''long'', tr_entry_price = 100, tr_exit_price = 96, tr_size = 150,
               tr_pnl = - 600, tr_pnl_percent = - 6, tr_reason = ''STOP_LOSS'',
               tr_pattern = ''breakout'' \<rparr>],
          position := None \<rparr>"
    by (simp add: close_position_def scenario_open_def scenario_position_def Let_def
        scenario_engine_def init_engine_def)
  have l: "length scenario_frame = 6" by (simp add: scenario_frame_def)
  have n: "name (scenario_frame ! 5) = Timestamp 19723 37800"
    by (simp add: scenario_frame_def scenario_row_def)
  have r: "snd (check_signal (snd (close_position scenario_open 96 scenario_later ''STOP_LOSS''))
        scenario_frame (Some 5))
      = reset_daily_limits (snd (close_position scenario_open 96 scenario_later ''STOP_LOSS''))
          (scenario_frame ! 5)"
    using check_signal_engine [of 5 scenario_frame] l by simp
  show ?thesis
    unfolding r unfolding c using o n
    by (simp add: reset_daily_limits_def scenario_open_def scenario_time_def)
qed

subsection \<open>Signal detection without an index\<close>

text \<open>
  C3: \<^verbatim>\<open>check_signal\<close> called without an index takes \<open>i = -1\<close>, which is below 5,
  so for every frame and every engine it returns \<open>None\<close> before any pattern is
  evaluated, and leaves the engine as it was.
\<close>

theorem check_signal_no_index: "check_signal e df None = (Inr None, e)"
  by (simp add: check_signal_def)

theorem check_signal_no_index_witness:
  "check_signal scenario_engine [] None = (Inr None, scenario_engine)"
  using check_signal_no_index [of scenario_engine "[]"] by simp

subsection \<open>The breakout pattern\<close>

lemma iloc_slice_5:
  assumes "5 \<le> n" "n < length df"
  shows "iloc_slice df (n - 5) n = [df ! (n - 5), df ! (n - 4), df ! (n - 3), df ! (n - 2), df ! (n - 1)]"
proof -
  obtain k where k: "n = k + 5" using assms(1) by (metis add.commute le_Suc_ex)
  have d: "\<And>j. j < 5 \<Longrightarrow> drop (k + j) df = df ! (k + j) # drop (Suc (k + j)) df"
    using assms(2) k by (simp add: Cons_nth_drop_Suc)
  have "take 5 (drop k df) = [df ! k, df ! (k + 1), df ! (k + 2), df ! (k + 3), df ! (k + 4)]"
    using d [of 0] d [of 1] d [of 2] d [of 3] d [of 4]
    by (simp add: numeral_eq_Suc)
  then show ?thesis by (simp add: iloc_slice_def k add.commute)
qed

lemma iloc_slice_4:
  assumes "5 \<le> n" "n < length df"
  shows "iloc_slice df (n - 5) (n - 1) = [df ! (n - 5), df ! (n - 4), df ! (n - 3), df ! (n - 2)]"
proof -
  obtain k where k: "n = k + 5" using assms(1) by (metis add.commute le_Suc_ex)
  have d: "\<And>j. j < 5 \<Longrightarrow> drop (k + j) df = df ! (k + j) # drop (Suc (k + j)) df"
    using assms(2) k by (simp add: Cons_nth_drop_Suc)
  have "take 4 (drop k df) = [df ! k, df ! (k + 1), df ! (k + 2), df ! (k + 3)]"
    using d [of 0] d [of 1] d [of 2] d [of 3]
    by (simp add: numeral_eq_Suc)
  then show ?thesis by (simp add: iloc_slice_def k add.commute)
qed

lemma mk_signal_eq:
  "mk_signal ty r pat conf = mk_signal ty' r pat' conf' \<longleftrightarrow> ty = ty' \<and> pat = pat' \<and> conf = conf'"
  by (auto simp add: mk_signal_def)

lemma check_signal_patterns:
  assumes "5 \<le> i" "i < int (length df)"
    "daily_trade_count (reset_daily_limits e (df ! nat i)) < max_trades_per_day e"
    "\<not> daily_pnl (reset_daily_limits e (df ! nat i)) < - daily_loss_limit e * capital e"
  shows "fst (check_signal e df (Some i)) = Inr (check_patterns df (nat i))"
proof -
  have m: "max_trades_per_day (reset_daily_limits e (df ! nat i)) = max_trades_per_day e"
    "daily_loss_limit (reset_daily_limits e (df ! nat i)) = daily_loss_limit e"
    "capital (reset_daily_limits e (df ! nat i)) = capital e"
    by (simp_all add: reset_daily_limits_def split: option.splits)
  show ?thesis using assms by (simp add: check_signal_def Let_def m)
qed

lemma check_patterns_breakout:
  assumes "\<not> trend_pullback_long df n" "\<not> trend_pullback_short df n"
    "\<not> bb_bounce_long df n" "\<not> bb_rejection_short df n"
  shows "check_patterns df n = Some (mk_signal ''long'' (df ! n) ''breakout'' 0.8)
     \<longleftrightarrow> breakout_long df n"
  using assms by (simp add: check_patterns_def Let_def mk_signal_eq)


lemma breakout_long_rows:
  assumes "5 \<le> n" "n < length df"
  shows "breakout_long df n \<longleftrightarrow>
    (Max {high (df ! (n - 5)), high (df ! (n - 4)), high (df ! (n - 3)), high (df ! (n - 2)),
          high (df ! (n - 1))}
       - Min {low (df ! (n - 5)), low (df ! (n - 4)), low (df ! (n - 3)), low (df ! (n - 2)),
              low (df ! (n - 1))} < atr (df ! n) * 3
     \<and> close (df ! n) > Max {high (df ! (n - 5)), high (df ! (n - 4)), high (df ! (n - 3)),
                              high (df ! (n - 2))}
     \<and> volume_ratio (df ! n) > 1.5
     \<and> macd (df ! n) > macd_signal (df ! n))"
  unfolding breakout_long_def consolidating_def breaking_higher_def Let_def
    iloc_slice_5 [OF assms] iloc_slice_4 [OF assms]
  by simp

lemma breakout_frame_rows:
  "breakout_frame ! 5 = (scenario_row 37800)\<lparr> high := 102.5, low := 99.5, close := 102, body := 2,
         upper_wick := 0.5, lower_wick := 0.5, range_col := 3, price_change := 2,
         volume_ratio := 2, macd := 1, macd_hist := 1 \<rparr>"
  "breakout_frame ! 4 = (scenario_row 36900)\<lparr> high := 104 \<rparr>"
  "breakout_frame ! 3 = scenario_row 36000"
  "breakout_frame ! 2 = scenario_row 35100"
  "breakout_frame ! 1 = scenario_row 34200"
  "breakout_frame ! 0 = scenario_row 33300"
  "length breakout_frame = 6"
  by (simp_all add: breakout_frame_def)

lemma breakout_frame_no_earlier:
  "\<not> trend_pullback_long breakout_frame 5" "\<not> trend_pullback_short breakout_frame 5"
  "\<not> bb_bounce_long breakout_frame 5" "\<not> bb_rejection_short breakout_frame 5"
  by (simp_all add: trend_pullback_long_def trend_pullback_short_def bb_bounce_long_def
      bb_rejection_short_def breakout_frame_rows scenario_row_def)

lemma breakout_frame_gate:
  "daily_trade_count (reset_daily_limits scenario_engine (breakout_frame ! nat 5))
     < max_trades_per_day scenario_engine"
  "\<not> daily_pnl (reset_daily_limits scenario_engine (breakout_frame ! nat 5))
     < - daily_loss_limit scenario_engine * capital scenario_engine"
  by (simp_all add: reset_daily_limits_def scenario_engine_def init_engine_def)

lemma breakout_frame_breakout: "breakout_long breakout_frame 5"
  by (simp add: breakout_long_def consolidating_def breaking_higher_def iloc_slice_def
      breakout_frame_def scenario_row_def)

text \<open>
  C9, as the claim states it, fails. On the frame with the spike, no earlier pattern
  matches at row 5 and the code returns the long breakout signal, although the close of
  102 is below the high of 104 of the row just before it: the close does not exceed the
  high of the prior four rows.
\<close>

theorem breakout_long_counterexample:
  "\<not> trend_pullback_long breakout_frame 5 \<and> \<not> trend_pullback_short breakout_frame 5
   \<and> \<not> bb_bounce_long breakout_frame 5 \<and> \<not> bb_rejection_short breakout_frame 5
   \<and> fst (check_signal scenario_engine breakout_frame (Some 5))
       = Inr (Some (mk_signal ''long'' (breakout_frame ! 5) ''breakout'' 0.8))
   \<and> close (breakout_frame ! 5) = 102 \<and> high (breakout_frame ! 4) = 104
   \<and> \<not> spec_breakout_long breakout_frame 5"
proof -
  have "fst (check_signal scenario_engine breakout_frame (Some 5))
      = Inr (check_patterns breakout_frame (nat 5))"
    using breakout_frame_gate by (intro check_signal_patterns) (simp_all add: breakout_frame_rows)
  moreover have "check_patterns breakout_frame 5
      = Some (mk_signal ''long'' (breakout_frame ! 5) ''breakout'' 0.8)"
    using breakout_frame_no_earlier breakout_frame_breakout
    by (simp add: check_patterns_def)
  moreover have "\<not> spec_breakout_long breakout_frame 5"
    by (simp add: spec_breakout_long_def iloc_slice_def breakout_frame_def scenario_row_def)
  moreover have "close (breakout_frame ! 5) = 102" "high (breakout_frame ! 4) = 104"
    by (simp_all add: breakout_frame_rows)
  ultimately show ?thesis using breakout_frame_no_earlier by simp
qed

text \<open>
  C9, amended: for an index \<open>i\<close> with \<open>5 \<le> i < length df\<close>, when the daily-limit gate
  lets the call pass and neither trend-pullback nor band pattern matches, the long
  breakout signal (confidence 0.8) is returned exactly when the high-low range of the
  five rows \<open>i - 5\<close> to \<open>i - 1\<close> is below 3 times the current ATR, the current close
  exceeds the highest high of the four rows \<open>i - 5\<close> to \<open>i - 2\<close> (the current row and
  the row before it are both left out), the volume ratio exceeds 1.5 and the
  convergence line is above its signal line.
\<close>

theorem breakout_long_signal:
  assumes "5 \<le> i" "i < int (length df)"
    and "daily_trade_count (reset_daily_limits e (df ! nat i)) < max_trades_per_day e"
    and "\<not> daily_pnl (reset_daily_limits e (df ! nat i)) < - daily_loss_limit e * capital e"
    and "\<not> trend_pullback_long df (nat i)" "\<not> trend_pullback_short df (nat i)"
    and "\<not> bb_bounce_long df (nat i)" "\<not> bb_rejection_short df (nat i)"
  shows "fst (check_signal e df (Some i))
           = Inr (Some (mk_signal ''long'' (df ! nat i) ''breakout'' 0.8))
    \<longleftrightarrow>
    (Max {high (df ! (nat i - 5)), high (df ! (nat i - 4)), high (df ! (nat i - 3)),
          high (df ! (nat i - 2)), high (df ! (nat i - 1))}
       - Min {low (df ! (nat i - 5)), low (df ! (nat i - 4)), low (df ! (nat i - 3)),
              low (df ! (nat i - 2)), low (df ! (nat i - 1))} < atr (df ! nat i) * 3
     \<and> close (df ! nat i) > Max {high (df ! (nat i - 5)), high (df ! (nat i - 4)),
                                  high (df ! (nat i - 3)), high (df ! (nat i - 2))}
     \<and> volume_ratio (df ! nat i) > 1.5
     \<and> macd (df ! nat i) > macd_signal (df ! nat i))"
proof -
  have n: "5 \<le> nat i" "nat i < length df" using assms(1,2) by simp_all
  have "fst (check_signal e df (Some i)) = Inr (check_patterns df (nat i))"
    using assms(1-4) by (rule check_signal_patterns)
  moreover have "check_patterns df (nat i) = Some (mk_signal ''long'' (df ! nat i) ''breakout'' 0.8)
     \<longleftrightarrow> breakout_long df (nat i)"
    using assms(5-8) by (rule check_patterns_breakout)
  ultimately show ?thesis
    unfolding breakout_long_rows [OF n, symmetric] by simp
qed

theorem breakout_long_signal_witness:
  "(5::int) \<le> 5 \<and> 5 < int (length breakout_frame)
   \<and> daily_trade_count (reset_daily_limits scenario_engine (breakout_frame ! nat 5))
       < max_trades_per_day scenario_engine
   \<and> \<not> daily_pnl (reset_daily_limits scenario_engine (breakout_frame ! nat 5))
       < - daily_loss_limit scenario_engine * capital scenario_engine
   \<and> \<not> trend_pullback_long breakout_frame (nat 5) \<and> \<not> trend_pullback_short breakout_frame (nat 5)
   \<and> \<not> bb_bounce_long breakout_frame (nat 5) \<and> \<not> bb_rejection_short breakout_frame (nat 5)
   \<and> fst (check_signal scenario_engine breakout_frame (Some 5))
       = Inr (Some (mk_signal ''long'' (breakout_frame ! nat 5) ''breakout'' 0.8))
   \<and> close (breakout_frame ! nat 5) > Max {high (breakout_frame ! (nat 5 - 5)),
        high (breakout_frame ! (nat 5 - 4)), high (breakout_frame ! (nat 5 - 3)),
        high (breakout_frame ! (nat 5 - 2))}"
proof -
  have l: "(5::int) \<le> 5" "5 < int (length breakout_frame)"
    by (simp_all add: breakout_frame_rows)
  have e: "nat 5 = 5" by simp
  have ne: "\<not> trend_pullback_long breakout_frame (nat 5)"
    "\<not> trend_pullback_short breakout_frame (nat 5)"
    "\<not> bb_bounce_long breakout_frame (nat 5)" "\<not> bb_rejection_short breakout_frame (nat 5)"
    unfolding e by (rule breakout_frame_no_earlier)+
  have rows: "breakout_long breakout_frame (nat 5)"
    unfolding e by (rule breakout_frame_breakout)
  have n: "5 \<le> nat 5" "nat 5 < length breakout_frame" by (simp_all add: breakout_frame_rows)
  note r = rows [unfolded breakout_long_rows [OF n]]
  from breakout_long_signal [OF l breakout_frame_gate ne] r
  have "fst (check_signal scenario_engine breakout_frame (Some 5))
       = Inr (Some (mk_signal ''long'' (breakout_frame ! nat 5) ''breakout'' 0.8))"
    by blast
  with l breakout_frame_gate ne r show ?thesis by blast
qed

subsection \<open>Sizing and opening the position\<close>

lemma position_size_positive_leverage:
  "0 < calculate_position_size e entry stop c \<Longrightarrow> leverage e \<noteq> 0"
  by (auto simp add: calculate_position_size_def Let_def split: if_splits)

lemma open_position_refused:
  "calculate_position_size e (sig_price sg)
     (fst (calculate_stops e (sig_price sg) (sig_type sg) (sig_atr sg)))
     (get_confidence sg) \<le> 0
   \<Longrightarrow> open_position e sg ts = (Inr False, e)"
  by (simp add: open_position_def Let_def split_beta)

lemma open_position_opened:
  assumes "0 < calculate_position_size e (sig_price sg)
     (fst (calculate_stops e (sig_price sg) (sig_type sg) (sig_atr sg)))
     (get_confidence sg)"
  shows "\<exists>liq. open_position e sg ts =
       (Inr True,
        e\<lparr> position := Some
             \<lparr> pos_type = sig_type sg,
               pos_entry_price = sig_price sg,
               pos_size = calculate_position_size e (sig_price sg)
                 (fst (calculate_stops e (sig_price sg) (sig_type sg) (sig_atr sg)))
                 (get_confidence sg),
               pos_stop_loss = fst (calculate_stops e (sig_price sg) (sig_type sg) (sig_atr sg)),
               pos_take_profit = snd (calculate_stops e (sig_price sg) (sig_type sg) (sig_atr sg)),
               pos_liquidation_price = liq,
               pos_entry_time = ts,
               pos_entry_capital = capital e,
               pos_confidence = get_confidence sg,
               pos_pattern = Some (get_pattern sg),
               pos_trailing_stop = None \<rparr>,
           daily_trade_count := daily_trade_count e + 1,
           last_trade_date := (if hasattr_date ts then Some ts else None) \<rparr>)"
proof -
  have "leverage e \<noteq> 0" using assms by (rule position_size_positive_leverage)
  then obtain liq where
    liq: "calculate_liquidation_price e (sig_price sg) (sig_type sg) = Inr liq"
    by (cases "sig_type sg = ''long''") (simp_all add: calculate_liquidation_price_def)
  show ?thesis
    using assms liq by (intro exI [of _ liq]) (simp add: open_position_def Let_def split_beta)
qed

text \<open>
  C8: \<^verbatim>\<open>calculate_position_size\<close> returns 0 when the entry equals the stop-loss price,
  and otherwise the minimum of (capital x risk per trade x confidence / stop distance)
  x leverage and 0.5 x capital x leverage; when the stop that \<^verbatim>\<open>calculate_stops\<close>
  computes equals the entry, \<^verbatim>\<open>open_position\<close> returns false and leaves the whole
  engine (position slot and daily counters included) as it was; and with capital
  10000, leverage 3, risk 0.02, confidence 1, entry 100 and stop 96 the size is 150.
\<close>

theorem position_size_and_zero_stop_distance:
  "calculate_position_size e entry_price entry_price confidence = 0
   \<and> (entry_price \<noteq> stop_loss_price \<longrightarrow>
        calculate_position_size e entry_price stop_loss_price confidence
          = min ((capital e * risk_per_trade e * confidence / \<bar>entry_price - stop_loss_price\<bar>)
                   * leverage e)
                (0.5 * capital e * leverage e))
   \<and> (fst (calculate_stops e (sig_price sg) (sig_type sg) (sig_atr sg)) = sig_price sg \<longrightarrow>
        open_position e sg timestamp = (Inr False, e))
   \<and> calculate_position_size (init_engine 10000 3 0.02) 100 96 1 = 150"
proof (intro conjI impI)
  show "calculate_position_size e entry_price entry_price confidence = 0"
    by (simp add: calculate_position_size_def)
  show "calculate_position_size (init_engine 10000 3 0.02) 100 96 1 = 150"
    by (simp add: calculate_position_size_def init_engine_def)
next
  assume "entry_price \<noteq> stop_loss_price"
  then show "calculate_position_size e entry_price stop_loss_price confidence
          = min ((capital e * risk_per_trade e * confidence / \<bar>entry_price - stop_loss_price\<bar>)
                   * leverage e)
                (0.5 * capital e * leverage e)"
    by (simp add: calculate_position_size_def Let_def mult.commute mult.left_commute)
next
  assume "fst (calculate_stops e (sig_price sg) (sig_type sg) (sig_atr sg)) = sig_price sg"
  then have "calculate_position_size e (sig_price sg)
     (fst (calculate_stops e (sig_price sg) (sig_type sg) (sig_atr sg)))
     (get_confidence sg) \<le> 0"
    by (simp add: calculate_position_size_def)
  then show "open_position e sg timestamp = (Inr False, e)"
    by (rule open_position_refused)
qed


theorem position_size_and_zero_stop_distance_witness:
  "calculate_position_size scenario_engine 100 100 1 = 0
   \<and> (100::real) \<noteq> 96
   \<and> calculate_position_size scenario_engine 100 96 1 = 150
   \<and> fst (calculate_stops scenario_engine (sig_price (scenario_signal\<lparr> sig_atr := 0 \<rparr>))
            (sig_type (scenario_signal\<lparr> sig_atr := 0 \<rparr>)) (sig_atr (scenario_signal\<lparr> sig_atr := 0 \<rparr>)))
       = sig_price (scenario_signal\<lparr> sig_atr := 0 \<rparr>)
   \<and> open_position scenario_engine (scenario_signal\<lparr> sig_atr := 0 \<rparr>) scenario_time
       = (Inr False, scenario_engine)"
  using position_size_and_zero_stop_distance
    [of scenario_engine 100 1 96 "scenario_signal\<lparr> sig_atr := 0 \<rparr>" scenario_time]
  by (simp add: scenario_signal_def calculate_stops_def scenario_engine_def init_engine_def)

text \<open>
  C2, as the claim states it, fails: \<^verbatim>\<open>open_position\<close> has no check of the position
  slot. With the long position of the scenario open, a short signal is accepted, the
  position is replaced, the daily trade count goes from 1 to 2 and the last-trade date
  is overwritten.
\<close>

theorem open_while_open_counterexample:
  "position scenario_open = Some scenario_position
   \<and> daily_trade_count scenario_open = 1
   \<and> last_trade_date scenario_open = Some scenario_time
   \<and> fst (open_position scenario_open scenario_short scenario_later) = Inr True
   \<and> position (snd (open_position scenario_open scenario_short scenario_later))
       \<noteq> Some scenario_position
   \<and> daily_trade_count (snd (open_position scenario_open scenario_short scenario_later)) = 2
   \<and> last_trade_date (snd (open_position scenario_open scenario_short scenario_later))
       = Some scenario_later"
  by (simp add: open_position_def calculate_stops_def calculate_position_size_def
      calculate_liquidation_price_def get_confidence_def get_pattern_def
      scenario_open_def scenario_engine_def init_engine_def scenario_short_def
      scenario_later_def scenario_position_def scenario_time_def)

lemma calculate_liquidation_price_Inr:
  "leverage e \<noteq> 0 \<Longrightarrow>
   calculate_liquidation_price e entry_price position_type =
     Inr (if position_type = ''long'' then entry_price * (1 - 0.9 / leverage e)
          else entry_price * (1 + 0.9 / leverage e))"
  by (simp add: calculate_liquidation_price_def)

text \<open>
  C2, amended: \<^verbatim>\<open>close_position\<close> with no open position returns no record and leaves
  the engine unchanged. \<^verbatim>\<open>open_position\<close> does not look at the position slot: for
  every engine, with or without an open position, it returns false and changes nothing
  when the computed size is not positive, and otherwise returns true and changes
  exactly three attributes: the slot holds the new position (type, entry price, size,
  stops, liquidation price, entry time, capital at entry, confidence and pattern as
  computed from the signal, no trailing stop), replacing what was there, the daily
  trade count is incremented and the last-trade date is overwritten. The entry block
  of the drivers calls neither \<^verbatim>\<open>check_signal\<close> nor \<^verbatim>\<open>open_position\<close> while a position
  is open: it leaves the engine as it is. The slot holds one position at most.
\<close>

theorem open_position_overwrites_close_position_noop:
  "(position e = None \<longrightarrow> close_position e exit_price timestamp reason = (Inr None, e))
   \<and> (calculate_position_size e (sig_price sg)
         (fst (calculate_stops e (sig_price sg) (sig_type sg) (sig_atr sg)))
         (get_confidence sg) \<le> 0
       \<longrightarrow> open_position e sg timestamp' = (Inr False, e))
   \<and> (0 < calculate_position_size e (sig_price sg)
         (fst (calculate_stops e (sig_price sg) (sig_type sg) (sig_atr sg)))
         (get_confidence sg)
       \<longrightarrow> open_position e sg timestamp' =
         (Inr True,
          e\<lparr> position := Some
               \<lparr> pos_type = sig_type sg,
                 pos_entry_price = sig_price sg,
                 pos_size = calculate_position_size e (sig_price sg)
                   (fst (calculate_stops e (sig_price sg) (sig_type sg) (sig_atr sg)))
                   (get_confidence sg),
                 pos_stop_loss = fst (calculate_stops e (sig_price sg) (sig_type sg) (sig_atr sg)),
                 pos_take_profit = snd (calculate_stops e (sig_price sg) (sig_type sg) (sig_atr sg)),
                 pos_liquidation_price =
                   (if sig_type sg = ''long'' then sig_price sg * (1 - 0.9 / leverage e)
                    else sig_price sg * (1 + 0.9 / leverage e)),
                 pos_entry_time = timestamp',
                 pos_entry_capital = capital e,
                 pos_confidence = get_confidence sg,
                 pos_pattern = Some (get_pattern sg),
                 pos_trailing_stop = None \<rparr>,
             daily_trade_count := daily_trade_count e + 1,
             last_trade_date := (if hasattr_date timestamp' then Some timestamp' else None) \<rparr>))
   \<and> (position e = Some p \<longrightarrow>
        check_for_new_signals e df i_arg timestamp' = (Inr False, e))"
proof (intro conjI impI)
  assume "position e = None"
  then show "close_position e exit_price timestamp reason = (Inr None, e)"
    by (simp add: close_position_def)
next
  assume "calculate_position_size e (sig_price sg)
         (fst (calculate_stops e (sig_price sg) (sig_type sg) (sig_atr sg)))
         (get_confidence sg) \<le> 0"
  then show "open_position e sg timestamp' = (Inr False, e)"
    by (rule open_position_refused)
next
  assume pos: "0 < calculate_position_size e (sig_price sg)
         (fst (calculate_stops e (sig_price sg) (sig_type sg) (sig_atr sg)))
         (get_confidence sg)"
  then have "leverage e \<noteq> 0" by (rule position_size_positive_leverage)
  then have liq: "calculate_liquidation_price e (sig_price sg) (sig_type sg) =
     Inr (if sig_type sg = ''long'' then sig_price sg * (1 - 0.9 / leverage e)
          else sig_price sg * (1 + 0.9 / leverage e))"
    by (rule calculate_liquidation_price_Inr)
  show "open_position e sg timestamp' =
         (Inr True,
          e\<lparr> position := Some
               \<lparr> pos_type = sig_type sg,
                 pos_entry_price = sig_price sg,
                 pos_size = calculate_position_size e (sig_price sg)
                   (fst (calculate_stops e (sig_price sg) (sig_type sg) (sig_atr sg)))
                   (get_confidence sg),
                 pos_stop_loss = fst (calculate_stops e (sig_price sg) (sig_type sg) (sig_atr sg)),
                 pos_take_profit = snd (calculate_stops e (sig_price sg) (sig_type sg) (sig_atr sg)),
                 pos_liquidation_price =
                   (if sig_type sg = ''long'' then sig_price sg * (1 - 0.9 / leverage e)
                    else sig_price sg * (1 + 0.9 / leverage e)),
                 pos_entry_time = timestamp',
                 pos_entry_capital = capital e,
                 pos_confidence = get_confidence sg,
                 pos_pattern = Some (get_pattern sg),
                 pos_trailing_stop = None \<rparr>,
             daily_trade_count := daily_trade_count e + 1,
             last_trade_date := (if hasattr_date timestamp' then Some timestamp' else None) \<rparr>)"
    using pos by (simp add: open_position_def Let_def split_beta liq)
next
  assume "position e = Some p"
  then show "check_for_new_signals e df i_arg timestamp' = (Inr False, e)"
    by (simp add: check_for_new_signals_def)
qed


theorem open_position_overwrites_close_position_noop_witness:
  "position scenario_engine = None
   \<and> close_position scenario_engine 100 scenario_time ''MANUAL_STOP'' = (Inr None, scenario_engine)
   \<and> open_position scenario_engine (scenario_signal\<lparr> sig_atr := 0 \<rparr>) scenario_time
       = (Inr False, scenario_engine)
   \<and> position scenario_open = Some scenario_position
   \<and> open_position scenario_open scenario_short scenario_later =
       (Inr True,
        scenario_open\<lparr> position := Some
             \<lparr> pos_type = ''short'', pos_entry_price = 105, pos_size = 240, pos_stop_loss = 107,
               pos_take_profit = 101.5, pos_liquidation_price = 136.5,
               pos_entry_time = scenario_later, pos_entry_capital = 10000,
               pos_confidence = 0.8, pos_pattern = Some ''breakdown'',
               pos_trailing_stop = None \<rparr>,
           daily_trade_count := 2,
           last_trade_date := Some scenario_later \<rparr>)
   \<and> check_for_new_signals scenario_open breakout_frame (Some 5) scenario_later
       = (Inr False, scenario_open)"
proof -
  have n: "position scenario_engine = None"
    by (simp add: scenario_engine_def init_engine_def)
  have z: "calculate_position_size scenario_engine (sig_price (scenario_signal\<lparr> sig_atr := 0 \<rparr>))
         (fst (calculate_stops scenario_engine (sig_price (scenario_signal\<lparr> sig_atr := 0 \<rparr>))
            (sig_type (scenario_signal\<lparr> sig_atr := 0 \<rparr>)) (sig_atr (scenario_signal\<lparr> sig_atr := 0 \<rparr>))))
         (get_confidence (scenario_signal\<lparr> sig_atr := 0 \<rparr>)) \<le> 0"
    by (simp add: calculate_position_size_def calculate_stops_def scenario_signal_def)
  have sz: "calculate_position_size scenario_open (sig_price scenario_short)
         (fst (calculate_stops scenario_open (sig_price scenario_short) (sig_type scenario_short)
            (sig_atr scenario_short)))
         (get_confidence scenario_short) = 240"
    by (simp add: calculate_position_size_def calculate_stops_def scenario_short_def
        get_confidence_def scenario_open_def scenario_engine_def init_engine_def)
  then have s: "0 < calculate_position_size scenario_open (sig_price scenario_short)
         (fst (calculate_stops scenario_open (sig_price scenario_short) (sig_type scenario_short)
            (sig_atr scenario_short)))
         (get_confidence scenario_short)"
    by simp
  have sz2: "calculate_position_size scenario_open 105 107 (4 / 5) = 240"
    by (simp add: calculate_position_size_def scenario_open_def scenario_engine_def
        init_engine_def)
  have o: "position scenario_open = Some scenario_position"
    by (simp add: scenario_open_def)
  have st: "calculate_stops scenario_open (sig_price scenario_short) (sig_type scenario_short)
            (sig_atr scenario_short) = (107, 101.5)"
    by (simp add: calculate_stops_def scenario_short_def scenario_open_def scenario_engine_def
        init_engine_def)
  have f: "sig_type scenario_short = ''short''" "sig_price scenario_short = 105"
    "get_confidence scenario_short = 0.8" "get_pattern scenario_short = ''breakdown''"
    "leverage scenario_open = 3" "capital scenario_open = 10000"
    "daily_trade_count scenario_open = 1" "hasattr_date scenario_later"
    by (simp_all add: scenario_short_def get_confidence_def get_pattern_def scenario_open_def
        scenario_engine_def init_engine_def scenario_later_def)
  note a = open_position_overwrites_close_position_noop
      [of scenario_engine 100 scenario_time "''MANUAL_STOP''"
          "scenario_signal\<lparr> sig_atr := 0 \<rparr>" scenario_time scenario_position breakout_frame "Some 5"]
  note b = open_position_overwrites_close_position_noop
      [of scenario_open 100 scenario_time "''MANUAL_STOP''" scenario_short scenario_later
          scenario_position breakout_frame "Some 5"]
  from a n z have c1: "close_position scenario_engine 100 scenario_time ''MANUAL_STOP''
       = (Inr None, scenario_engine)"
    and c2: "open_position scenario_engine (scenario_signal\<lparr> sig_atr := 0 \<rparr>) scenario_time
       = (Inr False, scenario_engine)"
    by blast+
  from b o have c4: "check_for_new_signals scenario_open breakout_frame (Some 5) scenario_later
       = (Inr False, scenario_open)"
    by blast
  from b s have c3: "open_position scenario_open scenario_short scenario_later =
         (Inr True,
          scenario_open\<lparr> position := Some
               \<lparr> pos_type = sig_type scenario_short,
                 pos_entry_price = sig_price scenario_short,
                 pos_size = calculate_position_size scenario_open (sig_price scenario_short)
                   (fst (calculate_stops scenario_open (sig_price scenario_short)
                      (sig_type scenario_short) (sig_atr scenario_short)))
                   (get_confidence scenario_short),
                 pos_stop_loss = fst (calculate_stops scenario_open (sig_price scenario_short)
                      (sig_type scenario_short) (sig_atr scenario_short)),
                 pos_take_profit = snd (calculate_stops scenario_open (sig_price scenario_short)
                      (sig_type scenario_short) (sig_atr scenario_short)),
                 pos_liquidation_price =
                   (if sig_type scenario_short = ''long''
                    then sig_price scenario_short * (1 - 0.9 / leverage scenario_open)
                    else sig_price scenario_short * (1 + 0.9 / leverage scenario_open)),
                 pos_entry_time = scenario_later,
                 pos_entry_capital = capital scenario_open,
                 pos_confidence = get_confidence scenario_short,
                 pos_pattern = Some (get_pattern scenario_short),
                 pos_trailing_stop = None \<rparr>,
             daily_trade_count := daily_trade_count scenario_open + 1,
             last_trade_date := (if hasattr_date scenario_later then Some scenario_later else None) \<rparr>)"
    by blast
  have c3e: "open_position scenario_open scenario_short scenario_later =
       (Inr True,
        scenario_open\<lparr> position := Some
             \<lparr> pos_type = ''short'', pos_entry_price = 105, pos_size = 240, pos_stop_loss = 107,
               pos_take_profit = 101.5, pos_liquidation_price = 136.5,
               pos_entry_time = scenario_later, pos_entry_capital = 10000,
               pos_confidence = 0.8, pos_pattern = Some ''breakdown'',
               pos_trailing_stop = None \<rparr>,
           daily_trade_count := 2,
           last_trade_date := Some scenario_later \<rparr>)"
    unfolding c3 st by (simp add: f sz2)
  from n c1 c2 o c3e c4 show ?thesis by blast
qed

subsection \<open>Closing the position\<close>

lemma close_position_Some:
  "position e = Some p \<Longrightarrow> pos_entry_capital p \<noteq> 0 \<Longrightarrow>
   \<exists>t. close_position e exit_price timestamp reason =
     (Inr (Some t),
      e\<lparr> capital := capital e + tr_pnl t, daily_pnl := daily_pnl e + tr_pnl t,
         trades := trades e @ [t], position := None \<rparr>)"
  by (simp add: close_position_def Let_def)

lemma close_position_returns_record:
  "close_position e exit_price timestamp reason = (Inr (Some t), e') \<Longrightarrow>
   \<exists>p. position e = Some p \<and> pos_entry_capital p \<noteq> 0"
  by (cases "position e") (simp_all add: close_position_def Let_def split: if_splits)

text \<open>
  C4: for an open position, closing with reason LIQUIDATION adds exactly
  \<open>- 0.9\<close> times the capital recorded at entry to the capital, whatever the exit price
  and timestamp; and when a record is returned (the capital at entry is not zero) its
  P\&L is that amount, the exit price being recorded but not used.
\<close>

theorem close_liquidation:
  "position e = Some p \<Longrightarrow>
     capital (snd (close_position e exit_price timestamp ''LIQUIDATION''))
       = capital e + (- 0.9 * pos_entry_capital p)
     \<and> (pos_entry_capital p \<noteq> 0 \<longrightarrow>
          (\<exists>t. fst (close_position e exit_price timestamp ''LIQUIDATION'') = Inr (Some t)
               \<and> tr_pnl t = - 0.9 * pos_entry_capital p
               \<and> tr_exit_price t = exit_price))"
  by (simp add: close_position_def Let_def)

theorem close_liquidation_witness:
  "position scenario_open = Some scenario_position
   \<and> pos_entry_capital scenario_position \<noteq> 0
   \<and> capital (snd (close_position scenario_open 69 scenario_time ''LIQUIDATION'')) = 1000
   \<and> (\<exists>t. fst (close_position scenario_open 69 scenario_time ''LIQUIDATION'') = Inr (Some t)
          \<and> tr_pnl t = - 9000 \<and> tr_exit_price t = 69)"
proof -
  have p: "position scenario_open = Some scenario_position"
    by (simp add: scenario_open_def)
  have c: "pos_entry_capital scenario_position = 10000"
    by (simp add: scenario_position_def)
  have k: "capital scenario_open = 10000"
    by (simp add: scenario_open_def scenario_engine_def init_engine_def)
  show ?thesis
    using close_liquidation [OF p, of 69 scenario_time] p by (simp add: c k)
qed

text \<open>
  C5: whenever \<^verbatim>\<open>close_position\<close> returns a trade record, the capital has grown by
  the P\&L of that record, the position slot is empty, the record is the new last entry
  of the trade log and the daily P\&L has grown by the same P\&L; and it does return a
  record for every open position whose capital at entry is not zero.
\<close>

theorem close_position_effect:
  "(close_position e exit_price timestamp reason = (Inr (Some t), e') \<longrightarrow>
      capital e' = capital e + tr_pnl t
      \<and> position e' = None
      \<and> trades e' = trades e @ [t]
      \<and> daily_pnl e' = daily_pnl e + tr_pnl t)
   \<and> (position e = Some p \<and> pos_entry_capital p \<noteq> 0 \<longrightarrow>
        (\<exists>t'. fst (close_position e exit_price timestamp reason) = Inr (Some t')))"
proof (intro conjI impI)
  assume r: "close_position e exit_price timestamp reason = (Inr (Some t), e')"
  then obtain q where q: "position e = Some q" "pos_entry_capital q \<noteq> 0"
    using close_position_returns_record by blast
  from close_position_Some [OF q, of exit_price timestamp reason] r
  have e': "e' = e\<lparr> capital := capital e + tr_pnl t, daily_pnl := daily_pnl e + tr_pnl t,
                    trades := trades e @ [t], position := None \<rparr>"
    by auto
  show "capital e' = capital e + tr_pnl t" by (simp add: e')
  show "position e' = None" by (simp add: e')
  show "trades e' = trades e @ [t]" by (simp add: e')
  show "daily_pnl e' = daily_pnl e + tr_pnl t" by (simp add: e')
next
  assume "position e = Some p \<and> pos_entry_capital p \<noteq> 0"
  then show "\<exists>t'. fst (close_position e exit_price timestamp reason) = Inr (Some t')"
    using close_position_Some [of e p exit_price timestamp reason] by auto
qed

theorem close_position_effect_witness:
  "position scenario_open = Some scenario_position
   \<and> pos_entry_capital scenario_position \<noteq> 0
   \<and> (\<exists>t e'. close_position scenario_open 108 scenario_time ''TAKE_PROFIT'' = (Inr (Some t), e')
          \<and> tr_pnl t = 1200
          \<and> capital e' = capital scenario_open + tr_pnl t
          \<and> position e' = None
          \<and> trades e' = trades scenario_open @ [t]
          \<and> daily_pnl e' = daily_pnl scenario_open + tr_pnl t)"
proof -
  let ?r = "close_position scenario_open 108 scenario_time ''TAKE_PROFIT''"
  have p: "position scenario_open = Some scenario_position"
    by (simp add: scenario_open_def)
  have c: "pos_entry_capital scenario_position \<noteq> 0"
    by (simp add: scenario_position_def)
  from close_position_effect [of scenario_open 108 scenario_time "''TAKE_PROFIT''" _ _ scenario_position]
    p c
  obtain t where t: "fst ?r = Inr (Some t)" by blast
  then have r: "?r = (Inr (Some t), snd ?r)" by (simp add: prod_eq_iff)
  have "fst ?r = Inr (Some t) \<Longrightarrow> tr_pnl t = 1200"
    by (auto simp add: close_position_def scenario_open_def scenario_position_def Let_def)
  with t have pnl: "tr_pnl t = 1200" by simp
  from close_position_effect [of scenario_open 108 scenario_time "''TAKE_PROFIT''" t "snd ?r"
      scenario_position] r
  have "capital (snd ?r) = capital scenario_open + tr_pnl t \<and> position (snd ?r) = None
      \<and> trades (snd ?r) = trades scenario_open @ [t]
      \<and> daily_pnl (snd ?r) = daily_pnl scenario_open + tr_pnl t"
    by blast
  with r pnl p c show ?thesis by blast
qed

subsection \<open>The exit evaluation\<close>

lemma trailing_update_fields:
  "pos_type (fst (trailing_update e p pr a)) = pos_type p"
  "pos_entry_price (fst (trailing_update e p pr a)) = pos_entry_price p"
  "pos_liquidation_price (fst (trailing_update e p pr a)) = pos_liquidation_price p"
  "pos_stop_loss (fst (trailing_update e p pr a)) = pos_stop_loss p"
  "pos_take_profit (fst (trailing_update e p pr a)) = pos_take_profit p"
  by (simp_all add: trailing_update_def Let_def)

lemma trailing_update_idem:
  "trailing_update e (fst (trailing_update e p pr a)) pr a = trailing_update e p pr a"
  by (cases "pos_trailing_stop p") (simp_all add: trailing_update_def Let_def)

lemma trailing_update_engine:
  "trailing_update (e\<lparr> position := q \<rparr>) p pr a = trailing_update e p pr a"
  by (simp add: trailing_update_def)

lemma should_exit_position_active:
  assumes "position e = Some p" "pos_entry_price p \<noteq> 0" "\<not> liquidated p pr"
    "trailing_active e p pr (Some a)"
  shows "should_exit_position e pr (Some a) =
    (Inr (if snd (trailing_update e p pr a) then (True, Some ''TRAILING_STOP'')
          else regular_stops p pr),
     e\<lparr> position := Some (fst (trailing_update e p pr a)) \<rparr>)"
  using assms by (simp add: should_exit_position_def Let_def split_beta)

lemma should_exit_position_unchanged:
  assumes "position e = None \<or> (\<exists>p. position e = Some p \<and>
     (pos_entry_price p = 0 \<or> liquidated p pr \<or> \<not> trailing_active e p pr catr))"
  shows "snd (should_exit_position e pr catr) = e"
  using assms by (auto simp add: should_exit_position_def)

lemma should_exit_position_slot:
  assumes "position e = Some p"
  shows "position (snd (should_exit_position e pr catr)) = Some p
     \<or> (\<exists>a. catr = Some a \<and>
           position (snd (should_exit_position e pr catr)) = Some (fst (trailing_update e p pr a)))"
proof (cases "pos_entry_price p = 0 \<or> liquidated p pr \<or> \<not> trailing_active e p pr catr")
  case True
  with assms have "snd (should_exit_position e pr catr) = e"
    by (simp add: should_exit_position_unchanged)
  with assms show ?thesis by simp
next
  case False
  then obtain a where a: "catr = Some a"
    by (cases catr) (simp_all add: trailing_active_def)
  with False assms show ?thesis
    by (simp add: should_exit_position_active)
qed

lemma trailing_update_tightens:
  assumes "pos_trailing_stop p = Some t"
  shows "\<exists>t'. pos_trailing_stop (fst (trailing_update e p pr a)) = Some t'
     \<and> (pos_type p = ''long'' \<longrightarrow> t \<le> t') \<and> (pos_type p \<noteq> ''long'' \<longrightarrow> t' \<le> t)"
  using assms by (simp add: trailing_update_def Let_def)

lemma trailing_update_type: "pos_type (fst (trailing_update e p pr a)) = pos_type p"
  by (simp add: trailing_update_def Let_def)

lemma trailing_update_discard:
  assumes "pos_trailing_stop p = Some t"
  shows "pos_type p = ''long'' \<Longrightarrow> pr - (a * stop_atr_multiplier e * 0.75) \<le> t
           \<Longrightarrow> fst (trailing_update e p pr a) = p"
    and "pos_type p \<noteq> ''long'' \<Longrightarrow> t \<le> pr + (a * stop_atr_multiplier e * 0.75)
           \<Longrightarrow> fst (trailing_update e p pr a) = p"
  using assms by (simp_all add: trailing_update_def Let_def)

lemma should_exit_position_tightens:
  assumes "position e = Some p" "pos_trailing_stop p = Some t"
  shows "\<exists>p' t'. position (snd (should_exit_position e pr catr)) = Some p'
     \<and> pos_type p' = pos_type p \<and> pos_trailing_stop p' = Some t'
     \<and> (pos_type p = ''long'' \<longrightarrow> t \<le> t') \<and> (pos_type p \<noteq> ''long'' \<longrightarrow> t' \<le> t)"
  using should_exit_position_slot [OF assms(1), of pr catr]
    trailing_update_tightens [OF assms(2)] assms(2)
  by (auto simp add: trailing_update_type)

lemma evaluate_exits_tightens:
  "position e = Some p \<Longrightarrow> pos_trailing_stop p = Some t \<Longrightarrow>
   \<exists>p' t'. position (evaluate_exits e steps) = Some p'
     \<and> pos_type p' = pos_type p \<and> pos_trailing_stop p' = Some t'
     \<and> (pos_type p = ''long'' \<longrightarrow> t \<le> t') \<and> (pos_type p \<noteq> ''long'' \<longrightarrow> t' \<le> t)"
proof (induction steps arbitrary: e p t)
  case Nil
  then show ?case by simp
next
  case (Cons s steps)
  obtain pr catr where s: "s = (pr, catr)" by (cases s)
  from should_exit_position_tightens [OF Cons.prems, of pr catr]
  obtain p1 t1 where 1: "position (snd (should_exit_position e pr catr)) = Some p1"
    "pos_type p1 = pos_type p" "pos_trailing_stop p1 = Some t1"
    "pos_type p = ''long'' \<longrightarrow> t \<le> t1" "pos_type p \<noteq> ''long'' \<longrightarrow> t1 \<le> t"
    by blast
  from Cons.IH [OF 1(1) 1(3), of ] obtain p' t' where
    2: "position (evaluate_exits (snd (should_exit_position e pr catr)) steps) = Some p'"
    "pos_type p' = pos_type p1" "pos_trailing_stop p' = Some t'"
    "pos_type p1 = ''long'' \<longrightarrow> t1 \<le> t'" "pos_type p1 \<noteq> ''long'' \<longrightarrow> t' \<le> t1"
    by blast
  show ?case
  proof (intro exI conjI)
    show "position (evaluate_exits e (s # steps)) = Some p'" using 2(1) by (simp add: s)
    show "pos_type p' = pos_type p" using 1(2) 2(2) by simp
    show "pos_trailing_stop p' = Some t'" by (rule 2(3))
    show "pos_type p = ''long'' \<longrightarrow> t \<le> t'" using 1 2 by auto
    show "pos_type p \<noteq> ''long'' \<longrightarrow> t' \<le> t" using 1 2 by auto
  qed
qed

text \<open>
  C6: once the trailing stop is armed, it never moves against the favourable direction
  over any sequence of \<^verbatim>\<open>should_exit_position\<close> calls: the position stays in its slot
  and its stored trailing stop is at least the old one for a long position and at most
  the old one otherwise; and a single call whose candidate would not tighten the stored
  value leaves the position as it was.
\<close>

theorem trailing_stop_only_tightens:
  assumes "position e = Some p" "pos_trailing_stop p = Some t"
  shows "(\<exists>p' t'. position (evaluate_exits e steps) = Some p'
            \<and> pos_trailing_stop p' = Some t'
            \<and> (pos_type p = ''long'' \<longrightarrow> t \<le> t') \<and> (pos_type p \<noteq> ''long'' \<longrightarrow> t' \<le> t))
     \<and> (pos_type p = ''long'' \<and> current_price - (a * stop_atr_multiplier e * 0.75) \<le> t
          \<longrightarrow> position (snd (should_exit_position e current_price (Some a))) = Some p)
     \<and> (pos_type p \<noteq> ''long'' \<and> t \<le> current_price + (a * stop_atr_multiplier e * 0.75)
          \<longrightarrow> position (snd (should_exit_position e current_price (Some a))) = Some p)"
proof (intro conjI impI)
  show "\<exists>p' t'. position (evaluate_exits e steps) = Some p'
            \<and> pos_trailing_stop p' = Some t'
            \<and> (pos_type p = ''long'' \<longrightarrow> t \<le> t') \<and> (pos_type p \<noteq> ''long'' \<longrightarrow> t' \<le> t)"
    using evaluate_exits_tightens [OF assms, of steps] by blast
next
  assume "pos_type p = ''long'' \<and> current_price - (a * stop_atr_multiplier e * 0.75) \<le> t"
  then have "fst (trailing_update e p current_price a) = p"
    using trailing_update_discard(1) [OF assms(2)] by blast
  then show "position (snd (should_exit_position e current_price (Some a))) = Some p"
    using should_exit_position_slot [OF assms(1), of current_price "Some a"] by auto
next
  assume "pos_type p \<noteq> ''long'' \<and> t \<le> current_price + (a * stop_atr_multiplier e * 0.75)"
  then have "fst (trailing_update e p current_price a) = p"
    using trailing_update_discard(2) [OF assms(2)] by blast
  then show "position (snd (should_exit_position e current_price (Some a))) = Some p"
    using should_exit_position_slot [OF assms(1), of current_price "Some a"] by auto
qed

theorem trailing_stop_only_tightens_witness:
  "position scenario_armed = Some (scenario_position\<lparr> pos_trailing_stop := Some 100.5 \<rparr>)
   \<and> (\<exists>p' t'. position (evaluate_exits scenario_armed [(104, Some 2), (103, Some 2)]) = Some p'
          \<and> pos_trailing_stop p' = Some t' \<and> 100.5 \<le> t')
   \<and> position (snd (should_exit_position scenario_armed 103 (Some 2)))
       = Some (scenario_position\<lparr> pos_trailing_stop := Some 100.5 \<rparr>)"
proof -
  let ?p = "scenario_position\<lparr> pos_trailing_stop := Some 100.5 \<rparr>"
  have p: "position scenario_armed = Some ?p"
    by (simp add: scenario_armed_def)
  have t: "pos_trailing_stop ?p = Some 100.5" by simp
  have ty: "pos_type scenario_position = ''long''" by (simp add: scenario_position_def)
  have m: "stop_atr_multiplier scenario_armed = 2"
    by (simp add: scenario_armed_def scenario_open_def scenario_engine_def init_engine_def)
  show ?thesis
    using trailing_stop_only_tightens [OF p t, of "[(104, Some 2), (103, Some 2)]" 103 2] p
    by (simp add: ty m)
qed

text \<open>
  C7: a second call of \<^verbatim>\<open>should_exit_position\<close> with the same price and the same ATR,
  on the engine the first call left, returns the same (exit, reason) and leaves that
  engine as it is.
\<close>

theorem should_exit_position_idempotent:
  "should_exit_position (snd (should_exit_position e current_price current_atr)) current_price current_atr
     = should_exit_position e current_price current_atr"
proof (cases "position e = None \<or> (\<exists>p. position e = Some p \<and>
     (pos_entry_price p = 0 \<or> liquidated p current_price
      \<or> \<not> trailing_active e p current_price current_atr))")
  case True
  then show ?thesis by (simp add: should_exit_position_unchanged)
next
  case False
  then obtain p where p: "position e = Some p" "pos_entry_price p \<noteq> 0"
    "\<not> liquidated p current_price" "trailing_active e p current_price current_atr"
    by auto
  from p(4) obtain a where a: "current_atr = Some a"
    by (cases current_atr) (simp_all add: trailing_active_def)
  let ?p1 = "fst (trailing_update e p current_price a)"
  let ?e1 = "e\<lparr> position := Some ?p1 \<rparr>"
  have first: "should_exit_position e current_price (Some a) =
    (Inr (if snd (trailing_update e p current_price a) then (True, Some ''TRAILING_STOP'')
          else regular_stops p current_price), ?e1)"
    using p a by (simp add: should_exit_position_active)
  have q1: "position ?e1 = Some ?p1" by simp
  have q2: "pos_entry_price ?p1 \<noteq> 0" using p(2) by (simp add: trailing_update_fields)
  have q3: "\<not> liquidated ?p1 current_price"
    using p(3) by (simp add: liquidated_def trailing_update_fields)
  have pp: "pnl_pct ?p1 current_price = pnl_pct p current_price"
    by (simp only: pnl_pct_def trailing_update_fields)
  have q4: "trailing_active ?e1 ?p1 current_price (Some a)"
    using p(4) a by (simp add: trailing_active_def pp)
  have second: "should_exit_position ?e1 current_price (Some a) =
    (Inr (if snd (trailing_update ?e1 ?p1 current_price a) then (True, Some ''TRAILING_STOP'')
          else regular_stops ?p1 current_price),
     ?e1\<lparr> position := Some (fst (trailing_update ?e1 ?p1 current_price a)) \<rparr>)"
    by (rule should_exit_position_active [OF q1 q2 q3 q4])
  have u: "trailing_update ?e1 ?p1 current_price a = trailing_update e p current_price a"
    by (simp add: trailing_update_engine trailing_update_idem)
  have r: "regular_stops ?p1 current_price = regular_stops p current_price"
    by (simp add: regular_stops_def trailing_update_fields)
  show ?thesis
    unfolding a first snd_conv second u r by simp
qed

theorem should_exit_position_idempotent_witness:
  "should_exit_position (snd (should_exit_position scenario_open 104 (Some 2))) 104 (Some 2)
     = should_exit_position scenario_open 104 (Some 2)
   \<and> should_exit_position scenario_open 104 (Some 2)
     = (Inr (False, None),
        scenario_open\<lparr> position := Some (scenario_position\<lparr> pos_trailing_stop := Some 101 \<rparr>) \<rparr>)"
proof -
  have "should_exit_position scenario_open 104 (Some 2)
     = (Inr (False, None),
        scenario_open\<lparr> position := Some (scenario_position\<lparr> pos_trailing_stop := Some 101 \<rparr>) \<rparr>)"
    by (simp add: should_exit_position_def liquidated_def trailing_active_def pnl_pct_def
        trailing_update_def regular_stops_def scenario_open_def scenario_position_def
        scenario_engine_def init_engine_def)
  then show ?thesis
    using should_exit_position_idempotent [of scenario_open 104 "Some 2"] by simp
qed

subsection \<open>Performance statistics\<close>

lemma analyze_performance_Some:
  assumes "trades e \<noteq> []" "initial_capital e \<noteq> 0"
  shows "\<exists>r. analyze_performance e = Inr (Some r)
     \<and> total_trades r = int (length (trades e))
     \<and> winning_trades r = int (length (filter (\<lambda>t. tr_pnl t > 0) (trades e)))
     \<and> losing_trades r = int (length (trades e))
           - int (length (filter (\<lambda>t. tr_pnl t > 0) (trades e)))
     \<and> win_rate r = real_of_int (int (length (filter (\<lambda>t. tr_pnl t > 0) (trades e))))
           / real_of_int (int (length (trades e))) * 100
     \<and> profit_factor r =
         (if \<bar>sum_list (map tr_pnl (filter (\<lambda>t. tr_pnl t \<le> 0) (trades e)))\<bar> > 0
          then Finite (sum_list (map tr_pnl (filter (\<lambda>t. tr_pnl t > 0) (trades e)))
                 / \<bar>sum_list (map tr_pnl (filter (\<lambda>t. tr_pnl t \<le> 0) (trades e)))\<bar>)
          else Infinity)"
  using assms by (simp add: analyze_performance_def Let_def)

lemma length_losers:
  "int (length ts) - int (length (filter (\<lambda>t. tr_pnl t > 0) ts))
     = int (length (filter (\<lambda>t. tr_pnl t \<le> 0) ts))"
  by (induction ts) auto

text \<open>
  C10: \<^verbatim>\<open>analyze_performance\<close> returns \<open>None\<close> on an empty trade log. Otherwise
  (with a non-zero initial capital, which the ROI divides by) the trades with a P\&L of
  at most zero, zero included, are the losing trades, and the profit factor is the gross
  profit divided by the gross loss, or positive infinity when the gross loss is zero.
  For a log of one winning and one losing trade of the same magnitude \<open>a\<close>, in either
  order, the win rate is 50 and the profit factor is \<open>a / a\<close>.
\<close>

theorem analyze_performance_statistics:
  "(trades e = [] \<longrightarrow> analyze_performance e = Inr None)
   \<and> (trades e \<noteq> [] \<and> initial_capital e \<noteq> 0 \<longrightarrow>
        (\<exists>r. analyze_performance e = Inr (Some r)
           \<and> winning_trades r = int (length (filter (\<lambda>t. tr_pnl t > 0) (trades e)))
           \<and> losing_trades r = int (length (filter (\<lambda>t. tr_pnl t \<le> 0) (trades e)))
           \<and> profit_factor r =
               (if \<bar>sum_list (map tr_pnl (filter (\<lambda>t. tr_pnl t \<le> 0) (trades e)))\<bar> = 0
                then Infinity
                else Finite (sum_list (map tr_pnl (filter (\<lambda>t. tr_pnl t > 0) (trades e)))
                       / \<bar>sum_list (map tr_pnl (filter (\<lambda>t. tr_pnl t \<le> 0) (trades e)))\<bar>))))
   \<and> ((trades e = [w, l] \<or> trades e = [l, w]) \<and> 0 < a \<and> tr_pnl w = a \<and> tr_pnl l = - a
        \<and> initial_capital e \<noteq> 0 \<longrightarrow>
        (\<exists>r. analyze_performance e = Inr (Some r)
           \<and> win_rate r = 50 \<and> profit_factor r = Finite (a / a)))"
proof (intro conjI impI)
  assume "trades e = []"
  then show "analyze_performance e = Inr None" by (simp add: analyze_performance_def)
next
  assume h: "trades e \<noteq> [] \<and> initial_capital e \<noteq> 0"
  then obtain r where r: "analyze_performance e = Inr (Some r)"
    "winning_trades r = int (length (filter (\<lambda>t. tr_pnl t > 0) (trades e)))"
    "losing_trades r = int (length (trades e))
           - int (length (filter (\<lambda>t. tr_pnl t > 0) (trades e)))"
    "profit_factor r =
         (if \<bar>sum_list (map tr_pnl (filter (\<lambda>t. tr_pnl t \<le> 0) (trades e)))\<bar> > 0
          then Finite (sum_list (map tr_pnl (filter (\<lambda>t. tr_pnl t > 0) (trades e)))
                 / \<bar>sum_list (map tr_pnl (filter (\<lambda>t. tr_pnl t \<le> 0) (trades e)))\<bar>)
          else Infinity)"
    using analyze_performance_Some [of e] by blast
  show "\<exists>r. analyze_performance e = Inr (Some r)
           \<and> winning_trades r = int (length (filter (\<lambda>t. tr_pnl t > 0) (trades e)))
           \<and> losing_trades r = int (length (filter (\<lambda>t. tr_pnl t \<le> 0) (trades e)))
           \<and> profit_factor r =
               (if \<bar>sum_list (map tr_pnl (filter (\<lambda>t. tr_pnl t \<le> 0) (trades e)))\<bar> = 0
                then Infinity
                else Finite (sum_list (map tr_pnl (filter (\<lambda>t. tr_pnl t > 0) (trades e)))
                       / \<bar>sum_list (map tr_pnl (filter (\<lambda>t. tr_pnl t \<le> 0) (trades e)))\<bar>))"
  proof (intro exI [of _ r] conjI)
    show "analyze_performance e = Inr (Some r)" by (rule r(1))
    show "winning_trades r = int (length (filter (\<lambda>t. tr_pnl t > 0) (trades e)))" by (rule r(2))
    show "losing_trades r = int (length (filter (\<lambda>t. tr_pnl t \<le> 0) (trades e)))"
      using r(3) by (simp only: length_losers)
    show "profit_factor r =
               (if \<bar>sum_list (map tr_pnl (filter (\<lambda>t. tr_pnl t \<le> 0) (trades e)))\<bar> = 0
                then Infinity
                else Finite (sum_list (map tr_pnl (filter (\<lambda>t. tr_pnl t > 0) (trades e)))
                       / \<bar>sum_list (map tr_pnl (filter (\<lambda>t. tr_pnl t \<le> 0) (trades e)))\<bar>))"
      unfolding r(4) by simp
  qed
next
  assume h: "(trades e = [w, l] \<or> trades e = [l, w]) \<and> 0 < a \<and> tr_pnl w = a \<and> tr_pnl l = - a
        \<and> initial_capital e \<noteq> 0"
  then have ne: "trades e \<noteq> []" "initial_capital e \<noteq> 0" by auto
  from analyze_performance_Some [OF ne] obtain r where r: "analyze_performance e = Inr (Some r)"
    "win_rate r = real_of_int (int (length (filter (\<lambda>t. tr_pnl t > 0) (trades e))))
           / real_of_int (int (length (trades e))) * 100"
    "profit_factor r =
         (if \<bar>sum_list (map tr_pnl (filter (\<lambda>t. tr_pnl t \<le> 0) (trades e)))\<bar> > 0
          then Finite (sum_list (map tr_pnl (filter (\<lambda>t. tr_pnl t > 0) (trades e)))
                 / \<bar>sum_list (map tr_pnl (filter (\<lambda>t. tr_pnl t \<le> 0) (trades e)))\<bar>)
          else Infinity)"
    by blast
  from h have w: "filter (\<lambda>t. tr_pnl t > 0) (trades e) = [w]"
    and l: "filter (\<lambda>t. tr_pnl t \<le> 0) (trades e) = [l]"
    and n: "length (trades e) = 2"
    by auto
  have "win_rate r = 50" unfolding r(2) w n by simp
  moreover have "profit_factor r = Finite (a / a)"
    unfolding r(3) w l using h by simp
  ultimately show "\<exists>r. analyze_performance e = Inr (Some r)
           \<and> win_rate r = 50 \<and> profit_factor r = Finite (a / a)"
    using r(1) by blast
qed

theorem analyze_performance_statistics_witness:
  "analyze_performance scenario_engine = Inr None
   \<and> (\<exists>r. analyze_performance (scenario_engine\<lparr> trades := [scenario_win, scenario_loss] \<rparr>)
            = Inr (Some r)
          \<and> winning_trades r = 1 \<and> losing_trades r = 1
          \<and> win_rate r = 50 \<and> profit_factor r = Finite (600 / 600))"
proof -
  let ?e = "scenario_engine\<lparr> trades := [scenario_win, scenario_loss] \<rparr>"
  have t0: "trades scenario_engine = []" by (simp add: scenario_engine_def init_engine_def)
  have t: "trades ?e = [scenario_win, scenario_loss]" by simp
  have i: "initial_capital ?e \<noteq> 0" by (simp add: scenario_engine_def init_engine_def)
  have p: "tr_pnl scenario_win = 600" "tr_pnl scenario_loss = - 600"
    by (simp_all add: scenario_win_def scenario_loss_def)
  from analyze_performance_statistics [of scenario_engine] t0
  have a: "analyze_performance scenario_engine = Inr None" by blast
  have ne: "trades ?e \<noteq> []" by simp
  have or: "trades ?e = [scenario_win, scenario_loss] \<or> trades ?e = [scenario_loss, scenario_win]"
    by simp
  have pos: "(0::real) < 600" by simp
  note th = analyze_performance_statistics [of ?e scenario_win scenario_loss 600]
  from th or pos p i
  obtain r where r: "analyze_performance ?e = Inr (Some r)" "win_rate r = 50"
    "profit_factor r = Finite (600 / 600)"
    by blast
  from th ne i
  obtain r' where r': "analyze_performance ?e = Inr (Some r')"
    "winning_trades r' = int (length (filter (\<lambda>t. tr_pnl t > 0) (trades ?e)))"
    "losing_trades r' = int (length (filter (\<lambda>t. tr_pnl t \<le> 0) (trades ?e)))"
    by blast
  from r(1) r'(1) have "r' = r" by simp
  with r' have "winning_trades r = 1" "losing_trades r = 1" by (simp_all add: p)
  with a r show ?thesis by blast
qed

end
